theory Spec2Isabelle
  imports Complex_Main "HOL-Library.Char_ord" "HOL-Library.List_Lexorder" "HOL-Library.Multiset"
begin

section \<open>Strings as Python has them\<close>

text \<open>
  A Python \<open>str\<close> is a sequence of code points and \<open>len\<close> counts them. The model
  takes a title as a \<open>string\<close> whose characters are the code points below 256, so
  that \<open>length\<close> is \<open>len\<close>. On these code points \<open>str.lower\<close> moves the letters
  A to Z and the Latin-1 capitals (192 to 222 without the multiplication sign 215) up by
  32, and \<open>str.isspace\<close> holds of the ten ASCII separators, of NEL (133) and of the
  no-break space (160). A Python \<open>float\<close> that the matching computes or compares is
  finite and is taken as a \<open>real\<close>, without rounding.
\<close>

definition to_lower :: "char \<Rightarrow> char" where
  "to_lower c =
     (let n = (of_char c :: nat)
      in if (65 \<le> n \<and> n \<le> 90) \<or> (192 \<le> n \<and> n \<le> 222 \<and> n \<noteq> 215)
         then char_of (n + 32) else c)"

definition is_space :: "char \<Rightarrow> bool" where
  "is_space c =
     (let n = (of_char c :: nat)
      in (9 \<le> n \<and> n \<le> 13) \<or> (28 \<le> n \<and> n \<le> 32) \<or> n = 133 \<or> n = 160)"

definition lower :: "string \<Rightarrow> string" where
  "lower s = map to_lower s"

definition strip :: "string \<Rightarrow> string" where
  "strip s = rev (dropWhile is_space (rev (dropWhile is_space s)))"

text \<open>
  \<open>s.replace(old, new)\<close> scans from the left and replaces the occurrences of \<open>old\<close>
  that do not overlap. The source only calls it with a non-empty \<open>old\<close>; with an empty
  one the model leaves \<open>s\<close> as it is.
\<close>

fun replace :: "string \<Rightarrow> string \<Rightarrow> string \<Rightarrow> string" where
  "replace old new [] = []"
| "replace old new (c # cs) =
     (if old \<noteq> [] \<and> take (length old) (c # cs) = old
      then new @ replace old new (drop (length old) (c # cs))
      else c # replace old new cs)"

text \<open>\<open>sub in s\<close> on strings: \<open>sub\<close> occurs in \<open>s\<close> as a contiguous block.\<close>

fun contains :: "string \<Rightarrow> string \<Rightarrow> bool" where
  "contains sub [] = (sub = [])"
| "contains sub (c # cs) = (take (length sub) (c # cs) = sub \<or> contains sub cs)"

text \<open>
  \<open>s.split()\<close> without a separator: the maximal blocks of characters that are not
  white space, from left to right. \<open>cur\<close> is the block being read. A string has such
  a block exactly when one of its characters is not white space.
\<close>

fun split_from :: "string \<Rightarrow> string \<Rightarrow> string list" where
  "split_from cur [] = (if cur = [] then [] else [cur])"
| "split_from cur (c # cs) =
     (if is_space c then (if cur = [] then split_from [] cs else cur # split_from [] cs)
      else split_from (cur @ [c]) cs)"

definition split :: "string \<Rightarrow> string list" where
  "split s = split_from [] s"

text \<open>
  Modelled from the spec: the tokens of the scorer are the maximal blocks of characters
  between its separators. The library splits a string whose code points are all below 256
  at the ten ASCII separators only: NEL (133) and the no-break space (160), white space
  for \<open>str.strip\<close> and \<open>str.split\<close>, are token characters for it.
\<close>

definition is_separator :: "char \<Rightarrow> bool" where
  "is_separator c =
     (let n = (of_char c :: nat)
      in (9 \<le> n \<and> n \<le> 13) \<or> (28 \<le> n \<and> n \<le> 32))"

fun tokens_from :: "string \<Rightarrow> string \<Rightarrow> string list" where
  "tokens_from cur [] = (if cur = [] then [] else [cur])"
| "tokens_from cur (c # cs) =
     (if is_separator c then (if cur = [] then tokens_from [] cs else cur # tokens_from [] cs)
      else tokens_from (cur @ [c]) cs)"

definition tokens :: "string \<Rightarrow> string list" where
  "tokens s = tokens_from [] s"

text \<open>\<open>" ".join(xs)\<close>.\<close>

fun join :: "string list \<Rightarrow> string" where
  "join [] = []"
| "join [x] = x"
| "join (x # y # ys) = x @ CHR '' '' # join (y # ys)"

section \<open>The title normalizer\<close>

text \<open>
  \<^verbatim>\<open>
  def normalize_title(title: str) -> str:
      t = title.lower().strip()
      for ch in ["?", "!", ",", ".", ":", ";", "(", ")", "[", "]"]:
          t = t.replace(ch, " ")
      while "  " in t:
          t = t.replace("  ", " ")
      return t
  \<close>
\<close>

definition punctuation :: "string list" where
  "punctuation = [''?'', ''!'', '','', ''.'', '':'', '';'', ''('', '')'', ''['', '']'']"

function collapse_loop :: "string \<Rightarrow> string" where
  "collapse_loop t =
     (if contains ''  '' t then collapse_loop (replace ''  '' '' '' t) else t)"
  by pat_completeness auto

lemma length_replace_spaces_le: "length (replace ''  '' '' '' t) \<le> length t"
  by (induction "''  ''" "'' ''" t rule: replace.induct) (auto simp: le_SucI)

lemma length_replace_spaces_less:
  "contains ''  '' t \<Longrightarrow> length (replace ''  '' '' '' t) < length t"
proof (induction "''  ''" "'' ''" t rule: replace.induct)
  case 1
  then show ?case by simp
next
  case (2 c cs)
  show ?case
  proof (cases "take 2 (c # cs) = ''  ''")
    case True
    then obtain r where cs: "cs = CHR '' '' # r" and c: "c = CHR '' ''"
      by (cases cs) auto
    have "length (replace ''  '' '' '' r) \<le> length r"
      by (rule length_replace_spaces_le)
    with cs c show ?thesis by simp
  next
    case False
    with 2 show ?thesis by auto
  qed
qed

termination collapse_loop
  by (relation "measure length") (auto simp: length_replace_spaces_less)

definition normalize_title :: "string \<Rightarrow> string" where
  "normalize_title title =
     collapse_loop (foldl (\<lambda>t ch. replace ch '' '' t) (strip (lower title)) punctuation)"

section \<open>The similarity scorer\<close>

text \<open>
  Modelled from the spec: \<open>fuzz.token_set_ratio\<close> belongs to the rapidfuzz library,
  which \<open>matching.py\<close> imports and which is not part of the repository. The spec
  (4.2) describes it as a token-set overlap ratio on a scale from 0 to 100: each string
  is reduced to its set of white-space delimited tokens (\<open>tokens\<close> above), the
  intersection and the two
  differences are rebuilt as sorted, space-joined strings, edit-distance ratios between
  the rebuilt strings are computed, and the largest one is returned; a title without
  tokens scores zero (7). The definitions below follow the library's computation of
  that ratio: the edit distance is the insertion/deletion distance, the ratio of a
  distance \<open>d\<close> between strings of total length \<open>n\<close> is \<open>100 - 100 * d / n\<close>,
  one token set containing the other scores 100, and the two ratios against the bare
  intersection follow from the lengths alone.
\<close>

fun lcs_length :: "string \<Rightarrow> string \<Rightarrow> nat" where
  "lcs_length [] ys = 0"
| "lcs_length (x # xs) [] = 0"
| "lcs_length (x # xs) (y # ys) =
     (if x = y then Suc (lcs_length xs ys)
      else max (lcs_length xs (y # ys)) (lcs_length (x # xs) ys))"

text \<open>
  Modelled from the spec: the insertion/deletion distance of the library, the two lengths
  less twice the length of a longest common subsequence.
\<close>

definition indel_distance :: "string \<Rightarrow> string \<Rightarrow> nat" where
  "indel_distance a b = length a + length b - 2 * lcs_length a b"

text \<open>
  Modelled from the spec: the library's ratio of a distance to a total length, on the
  scale from 0 to 100, cut off at the default score cut-off 0.
\<close>

definition norm_distance :: "nat \<Rightarrow> nat \<Rightarrow> real" where
  "norm_distance d lensum =
     (let score = (if lensum \<noteq> 0 then 100 - 100 * real d / real lensum else 100)
      in if score \<ge> 0 then score else 0)"

text \<open>
  Modelled from the spec: \<open>fuzz.token_set_ratio\<close> of the library, without a processor
  and with the default score cut-off.
\<close>

definition token_set_ratio :: "string \<Rightarrow> string \<Rightarrow> real" where
  "token_set_ratio s1 s2 =
     (let tokens_a = set (tokens s1); tokens_b = set (tokens s2)
      in if tokens_a = {} \<or> tokens_b = {} then 0
         else
           let intersect = tokens_a \<inter> tokens_b;
               diff_ab = tokens_a - tokens_b;
               diff_ba = tokens_b - tokens_a
           in if intersect \<noteq> {} \<and> (diff_ab = {} \<or> diff_ba = {}) then 100
              else
                let diff_ab_joined = join (sorted_list_of_set diff_ab);
                    diff_ba_joined = join (sorted_list_of_set diff_ba);
                    ab_len = length diff_ab_joined;
                    ba_len = length diff_ba_joined;
                    sect_len = length (join (sorted_list_of_set intersect));
                    sep = (if sect_len \<noteq> 0 then 1 else 0);
                    sect_ab_len = sect_len + sep + ab_len;
                    sect_ba_len = sect_len + sep + ba_len;
                    result = norm_distance (indel_distance diff_ab_joined diff_ba_joined)
                               (sect_ab_len + sect_ba_len)
                in if sect_len = 0 then result
                   else
                     let sect_ab_ratio = norm_distance (sep + ab_len) (sect_len + sect_ab_len);
                         sect_ba_ratio = norm_distance (sep + ba_len) (sect_len + sect_ba_len)
                     in max result (max sect_ab_ratio sect_ba_ratio))"

text \<open>
  \<^verbatim>\<open>
  def similarity(a: str, b: str) -> float:
      return fuzz.token_set_ratio(normalize_title(a), normalize_title(b)) / 100.0
  \<close>
\<close>

definition similarity :: "string \<Rightarrow> string \<Rightarrow> real" where
  "similarity a b = token_set_ratio (normalize_title a) (normalize_title b) / 100"

section \<open>The data model\<close>

text \<open>
  \<open>SiteMarket\<close> and \<open>UnifiedProduct\<close> of \<open>types.py\<close>. The field \<open>id\<close> is
  \<open>id'\<close> here; \<open>additional\<close>, a dictionary the matching never reads, is an
  association list.

  The fields \<open>price\<close> and \<open>confidence_scores\<close> are declared \<open>float\<close> without a
  constraint, and whoever builds a record decides what they hold: a \<open>pyfloat\<close> is a
  finite number, the negative zero, an infinity or not-a-number.
\<close>

datatype pyfloat = Finite real | NegZero | PosInf | NegInf | NaN

record SiteMarket =
  site :: string
  id' :: string
  title :: string
  price :: "pyfloat option"
  url :: "string option"
  additional :: "(string \<times> string) list"

record UnifiedProduct =
  unified_title :: string
  members :: "SiteMarket list"
  confidence_scores :: "pyfloat list"

datatype error = IndexError | ValueError

section \<open>The clustering engine\<close>

text \<open>
  \<^verbatim>\<open>
  def cluster_markets(markets, threshold=0.78):
      clusters = []
      for m in markets:
          placed = False
          for cluster in clusters:
              centroid_title = cluster[0][0].title
              score = similarity(m.title, centroid_title)
              if score >= threshold:
                  cluster.append((m, score))
                  placed = True
                  break
          if not placed:
              clusters.append([(m, 1.0)])
      unified = []
      for cluster in clusters:
          titles = [cm.title for cm, _ in cluster]
          rep = max(titles, key=len)
          unified.append(UnifiedProduct(unified_title=rep,
              members=[cm for cm, _ in cluster],
              confidence_scores=[sc for _, sc in cluster]))
      return unified
  \<close>
  A cluster is the list of its (record, score) pairs; the scores of the pass are the
  constant 1.0 and values of \<open>similarity\<close>, hence reals, which the builder stores in
  the product as \<open>Finite\<close> floats. \<open>place\<close> is the inner loop: it
  returns the clusters after the append together with \<open>placed\<close>; \<open>cluster[0]\<close> on
  an empty cluster raises \<open>IndexError\<close>. \<open>cluster_loop\<close> is the outer loop with
  \<open>clusters\<close> as its state.
\<close>

type_synonym cluster = "(SiteMarket \<times> real) list"

fun place :: "SiteMarket \<Rightarrow> real \<Rightarrow> cluster list \<Rightarrow> error + cluster list \<times> bool" where
  "place m threshold [] = Inr ([], False)"
| "place m threshold (cluster # rest) =
     (case cluster of
        [] \<Rightarrow> Inl IndexError
      | (cm, _) # _ \<Rightarrow>
          let centroid_title = title cm;
              score = similarity (title m) centroid_title
          in if score \<ge> threshold then Inr ((cluster @ [(m, score)]) # rest, True)
             else (case place m threshold rest of
                     Inl e \<Rightarrow> Inl e
                   | Inr (rest', placed) \<Rightarrow> Inr (cluster # rest', placed)))"

fun cluster_loop :: "real \<Rightarrow> SiteMarket list \<Rightarrow> cluster list \<Rightarrow> error + cluster list" where
  "cluster_loop threshold [] clusters = Inr clusters"
| "cluster_loop threshold (m # ms) clusters =
     (case place m threshold clusters of
        Inl e \<Rightarrow> Inl e
      | Inr (clusters', placed) \<Rightarrow>
          cluster_loop threshold ms
            (if \<not> placed then clusters' @ [[(m, 1)]] else clusters'))"

text \<open>
  \<open>max(titles, key=len)\<close>: the first title of the greatest length; \<open>ValueError\<close>
  on an empty list. \<open>max_from\<close> scans with the best title so far and replaces it only
  by a strictly longer one.
\<close>

fun max_from :: "string \<Rightarrow> string list \<Rightarrow> string" where
  "max_from best [] = best"
| "max_from best (t # ts) = max_from (if length t > length best then t else best) ts"

definition max_by_len :: "string list \<Rightarrow> error + string" where
  "max_by_len titles = (case titles of [] \<Rightarrow> Inl ValueError | t # ts \<Rightarrow> Inr (max_from t ts))"

fun build_unified :: "cluster list \<Rightarrow> error + UnifiedProduct list" where
  "build_unified [] = Inr []"
| "build_unified (cluster # rest) =
     (case max_by_len (map (\<lambda>(cm, _). title cm) cluster) of
        Inl e \<Rightarrow> Inl e
      | Inr rep \<Rightarrow>
          (case build_unified rest of
             Inl e \<Rightarrow> Inl e
           | Inr unified \<Rightarrow>
               Inr (\<lparr>unified_title = rep,
                     members = map (\<lambda>(cm, _). cm) cluster,
                     confidence_scores = map (\<lambda>(_, sc). Finite sc) cluster\<rparr> # unified)))"

definition cluster_markets :: "SiteMarket list \<Rightarrow> real \<Rightarrow> error + UnifiedProduct list" where
  "cluster_markets markets threshold =
     (case cluster_loop threshold markets [] of
        Inl e \<Rightarrow> Inl e
      | Inr clusters \<Rightarrow> build_unified clusters)"

section \<open>The result serializer\<close>












section \<open>The reference definitions of the design document\<close>

text \<open>
  The normalizer as section 4.1 words it: lower-case, strip, replace each of the ten
  punctuation characters by a space, then collapse every run of two or more spaces to
  one space. \<open>collapse_runs\<close> drops each space that is followed by another one.
\<close>

definition punctuation_chars :: "char set" where
  "punctuation_chars = set ''?!,.:;()[]''"

fun collapse_runs :: "string \<Rightarrow> string" where
  "collapse_runs [] = []"
| "collapse_runs [c] = [c]"
| "collapse_runs (c # c' # cs) =
     (if c = CHR '' '' \<and> c' = CHR '' '' then collapse_runs (c' # cs)
      else c # collapse_runs (c' # cs))"

definition normalize_reference :: "string \<Rightarrow> string" where
  "normalize_reference t =
     collapse_runs
       (map (\<lambda>c. if c \<in> punctuation_chars then CHR '' '' else c) (strip (lower t)))"

text \<open>
  The clustering pass as section 4.3 words it. The centroid of a cluster is the title of
  its first member. \<open>first_fit\<close> is the position, in creation order, of the first
  cluster whose centroid clears the threshold. A record joins that cluster with its
  score; without such a cluster it opens a new one with score 1.
\<close>

definition centroid_title :: "cluster \<Rightarrow> string" where
  "centroid_title c = title (fst (hd c))"

definition first_fit :: "real \<Rightarrow> SiteMarket \<Rightarrow> cluster list \<Rightarrow> nat option" where
  "first_fit threshold r cs =
     find (\<lambda>i. similarity (title r) (centroid_title (cs ! i)) \<ge> threshold) [0..<length cs]"

definition first_fit_step :: "real \<Rightarrow> cluster list \<Rightarrow> SiteMarket \<Rightarrow> cluster list" where
  "first_fit_step threshold cs r =
     (case first_fit threshold r cs of
        Some i \<Rightarrow> cs[i := cs ! i @ [(r, similarity (title r) (centroid_title (cs ! i)))]]
      | None \<Rightarrow> cs @ [[(r, 1)]])"

definition first_fit_clusters :: "real \<Rightarrow> SiteMarket list \<Rightarrow> cluster list" where
  "first_fit_clusters threshold records = foldl (first_fit_step threshold) [] records"

text \<open>The product that the builder (4.4) derives from a cluster with a first member.\<close>

definition unified_of :: "cluster \<Rightarrow> UnifiedProduct" where
  "unified_of c =
     \<lparr>unified_title = max_from (title (fst (hd c))) (map (\<lambda>(cm, _). title cm) (tl c)),
      members = map fst c,
      confidence_scores = map (\<lambda>(_, sc). Finite sc) c\<rparr>"

text \<open>
  Two notions for the proofs: a string that begins with a space, and the invariant of a
  cluster during the pass: it has a first member, stored with score 1, and every later
  member is stored with its similarity to the centroid, which clears the threshold.
\<close>

definition starts_space :: "string \<Rightarrow> bool" where
  "starts_space s = (case s of [] \<Rightarrow> False | c # _ \<Rightarrow> c = CHR '' '')"

definition cluster_inv :: "real \<Rightarrow> cluster \<Rightarrow> bool" where
  "cluster_inv threshold c =
     (c \<noteq> [] \<and> snd (hd c) = 1 \<and>
      (\<forall>(m, s) \<in> set (tl c). s = similarity (title m) (centroid_title c) \<and> threshold \<le> s))"

text \<open>A record with a given title, for the examples.\<close>

definition sample :: "string \<Rightarrow> SiteMarket" where
  "sample t =
     \<lparr>site = ''polymarket'', id' = ''1'', title = t, price = None, url = None,
      additional = []\<rparr>"




section \<open>Properties of the similarity scorer\<close>

lemma lcs_length_commute: "lcs_length a b = lcs_length b a"
  by (induction a b rule: lcs_length.induct) (auto simp: max.commute, (case_tac ys; simp)+)

lemma indel_distance_commute: "indel_distance a b = indel_distance b a"
  by (simp add: indel_distance_def lcs_length_commute add.commute)

lemma norm_distance_bounds: "0 \<le> norm_distance d n" "norm_distance d n \<le> 100"
  by (auto simp: norm_distance_def Let_def)

lemma token_set_ratio_bounds: "0 \<le> token_set_ratio a b \<and> token_set_ratio a b \<le> 100"
  unfolding token_set_ratio_def Let_def
  using norm_distance_bounds by (simp add: max_def)

lemma token_set_ratio_commute: "token_set_ratio a b = token_set_ratio b a"
  unfolding token_set_ratio_def Let_def
  by (simp add: indel_distance_commute Int_commute max.commute max.left_commute
      add.commute disj_commute)

lemma token_set_ratio_same: "tokens a \<noteq> [] \<Longrightarrow> token_set_ratio a a = 100"
  unfolding token_set_ratio_def Let_def by simp

text \<open>
  A string with a token for \<open>str.split\<close> has a character that is not white space;
  that character is not a separator of the scorer either, which then finds a token too.
\<close>

lemma split_from_nonempty:
  "split_from cur s \<noteq> [] \<longleftrightarrow> cur \<noteq> [] \<or> (\<exists>c\<in>set s. \<not> is_space c)"
  by (induction s arbitrary: cur) auto

lemma tokens_from_nonempty:
  "tokens_from cur s \<noteq> [] \<longleftrightarrow> cur \<noteq> [] \<or> (\<exists>c\<in>set s. \<not> is_separator c)"
  by (induction s arbitrary: cur) auto

lemma is_separator_is_space: "is_separator c \<Longrightarrow> is_space c"
  by (auto simp: is_separator_def is_space_def Let_def)

lemma split_tokens: "split s \<noteq> [] \<Longrightarrow> tokens s \<noteq> []"
  unfolding split_def tokens_def split_from_nonempty tokens_from_nonempty
  using is_separator_is_space by blast

lemma similarity_ge_0: "0 \<le> similarity a b"
  using token_set_ratio_bounds [of "normalize_title a" "normalize_title b"]
  by (simp add: similarity_def)

lemma similarity_le_1: "similarity a b \<le> 1"
  using token_set_ratio_bounds [of "normalize_title a" "normalize_title b"]
  by (simp add: similarity_def)

lemma similarity_commute: "similarity a b = similarity b a"
  unfolding similarity_def
  by (rule arg_cong [where f = "\<lambda>x. x / 100"]) (rule token_set_ratio_commute)

lemma similarity_same: "split (normalize_title a) \<noteq> [] \<Longrightarrow> similarity a a = 1"
  by (simp add: similarity_def token_set_ratio_same split_tokens)

text \<open>
  C4. The similarity of two titles lies between 0 and 1 and does not depend on their
  order. A title scores 1 against itself when its normalized form has at least one
  token, that is, a character that is not white space.
\<close>

theorem similarity_bounded_symmetric_reflexive:
  "0 \<le> similarity a b \<and> similarity a b \<le> 1 \<and> similarity a b = similarity b a \<and>
   (split (normalize_title a) \<noteq> [] \<longrightarrow> similarity a a = 1)"
  using similarity_commute [of a b] similarity_ge_0 [of a b] similarity_le_1 [of a b]
    similarity_same [of a]
  by blast

theorem similarity_bounded_symmetric_reflexive_witness:
  "split (normalize_title ''Will X win?'') \<noteq> [] \<and>
   similarity ''Will X win?'' ''Will X win?'' = 1 \<and>
   0 \<le> similarity ''Will X win?'' ''X wins'' \<and> similarity ''Will X win?'' ''X wins'' \<le> 1 \<and>
   similarity ''Will X win?'' ''X wins'' = similarity ''X wins'' ''Will X win?''"
proof -
  have tok: "split (normalize_title ''Will X win?'') \<noteq> []"
    by code_simp
  show ?thesis
    using tok similarity_bounded_symmetric_reflexive [of "''Will X win?''" "''X wins''"]
    by blast
qed

text \<open>
  The title \<open>?\<close> is not empty, yet its normalized form is a single space, which has
  no token: it scores 0 against itself.
\<close>

theorem similarity_reflexive_counterexample:
  "''?'' \<noteq> [] \<and> similarity ''?'' ''?'' \<noteq> 1"
  by code_simp

section \<open>The normalizer against its reference\<close>

lemma replace_char: "replace [x] [y] s = map (\<lambda>c. if c = x then y else c) s"
  by (induction s) auto

lemma replace_punctuation:
  "foldl (\<lambda>t ch. replace ch '' '' t) s punctuation =
   map (\<lambda>c. if c \<in> punctuation_chars then CHR '' '' else c) s"
  by (simp add: punctuation_def punctuation_chars_def replace_char)

lemma collapse_runs_Cons:
  "collapse_runs (c # s) =
     (if c = CHR '' '' \<and> starts_space s then collapse_runs s else c # collapse_runs s)"
  by (cases s) (auto simp: starts_space_def)

lemma replace_spaces_Cons:
  "replace ''  '' '' '' (c # s) =
     (if c = CHR '' '' \<and> starts_space s then CHR '' '' # replace ''  '' '' '' (tl s)
      else c # replace ''  '' '' '' s)"
  by (cases s) (auto simp: starts_space_def)

lemma starts_space_replace: "starts_space (replace ''  '' '' '' s) = starts_space s"
  by (cases s) (auto simp: starts_space_def)

text \<open>One pass of the replacement halves the runs; it does not change what they collapse to.\<close>

lemma collapse_runs_replace: "collapse_runs (replace ''  '' '' '' s) = collapse_runs s"
proof (induction s rule: length_induct)
  case (1 s)
  show ?case
  proof (cases s)
    case Nil
    then show ?thesis by simp
  next
    case (Cons c r)
    show ?thesis
    proof (cases "c = CHR '' '' \<and> starts_space r")
      case True
      then obtain r' where r: "r = CHR '' '' # r'"
        by (cases r) (auto simp: starts_space_def)
      have ih: "collapse_runs (replace ''  '' '' '' r') = collapse_runs r'"
        using 1 Cons r by simp
      have "collapse_runs (CHR '' '' # replace ''  '' '' '' r') = collapse_runs (CHR '' '' # r')"
        by (simp only: collapse_runs_Cons starts_space_replace ih)
      with True Cons r show ?thesis
        by (simp add: collapse_runs_Cons starts_space_def)
    next
      case False
      have ih: "collapse_runs (replace ''  '' '' '' r) = collapse_runs r"
        using 1 Cons by simp
      have "replace ''  '' '' '' (c # r) = c # replace ''  '' '' '' r"
        using False by (simp only: replace_spaces_Cons if_False)
      then show ?thesis
        using Cons ih by (simp only: collapse_runs_Cons starts_space_replace)
    qed
  qed
qed

lemma contains_spaces_Cons:
  "contains ''  '' (c # s) = ((c = CHR '' '' \<and> starts_space s) \<or> contains ''  '' s)"
  by (cases s) (auto simp: starts_space_def)

lemma collapse_runs_id: "\<not> contains ''  '' s \<Longrightarrow> collapse_runs s = s"
  by (induction s)
    (auto simp only: contains_spaces_Cons collapse_runs_Cons collapse_runs.simps
      split: if_splits)

lemma collapse_loop_runs: "collapse_loop t = collapse_runs t"
proof (induction t rule: collapse_loop.induct)
  case (1 t)
  show ?case
  proof (cases "contains ''  '' t")
    case True
    then have "collapse_loop t = collapse_loop (replace ''  '' '' '' t)"
      by (subst collapse_loop.simps) simp
    with 1 True show ?thesis by (simp only: collapse_runs_replace)
  next
    case False
    then have "collapse_loop t = t"
      by (subst collapse_loop.simps) simp
    with False show ?thesis using collapse_runs_id [of t] by simp
  qed
qed

text \<open>
  C8. \<open>normalize_title\<close>, whose loop terminates on every string, computes the reference
  pipeline: lower-case, strip, each of the ten punctuation characters replaced by a
  space, runs of spaces collapsed to one. The empty string is mapped to itself.
\<close>

theorem normalize_title_reference:
  "normalize_title t = normalize_reference t \<and> normalize_title [] = []"
proof -
  have eq: "\<And>s. normalize_title s = normalize_reference s"
    by (simp only: normalize_title_def normalize_reference_def replace_punctuation
        collapse_loop_runs)
  have "normalize_reference [] = []"
    by (simp add: normalize_reference_def strip_def lower_def)
  with eq show ?thesis by simp
qed

section \<open>The clustering pass against its reference\<close>

lemma find_map_index: "find P (map f xs) = map_option f (find (P \<circ> f) xs)"
  by (induction xs) auto

lemma first_fit_Nil: "first_fit t r [] = None"
  by (simp add: first_fit_def)

lemma first_fit_Cons:
  "first_fit t r (c # cs) =
     (if similarity (title r) (centroid_title c) \<ge> t then Some 0
      else map_option Suc (first_fit t r cs))"
proof -
  have "[0..<length (c # cs)] = 0 # map Suc [0..<length cs]"
    by (simp add: upt_conv_Cons map_Suc_upt del: upt_Suc)
  then show ?thesis
    by (simp add: first_fit_def find_map_index comp_def del: upt_Suc)
qed

text \<open>
  What \<open>first_fit\<close> picks: the cluster at \<open>i\<close> clears the threshold and no earlier one
  does, whatever the later ones score.
\<close>

lemma first_fit_Some:
  "first_fit t r cs = Some i \<longleftrightarrow>
     i < length cs \<and> similarity (title r) (centroid_title (cs ! i)) \<ge> t \<and>
     (\<forall>j<i. similarity (title r) (centroid_title (cs ! j)) < t)"
  by (auto simp: first_fit_def find_Some_iff not_le)

lemma first_fit_None:
  "first_fit t r cs = None \<longleftrightarrow>
     (\<forall>j<length cs. similarity (title r) (centroid_title (cs ! j)) < t)"
  by (auto simp: first_fit_def find_None_iff not_le in_set_conv_nth)

lemma place_first_fit:
  "\<forall>c\<in>set cs. c \<noteq> [] \<Longrightarrow>
   place m t cs =
     Inr (case first_fit t m cs of
            Some i \<Rightarrow> (cs[i := cs ! i @ [(m, similarity (title m) (centroid_title (cs ! i)))]], True)
          | None \<Rightarrow> (cs, False))"
proof (induction cs)
  case Nil
  then show ?case by (simp add: first_fit_Nil)
next
  case (Cons c cs)
  then obtain cm sc rest where c: "c = (cm, sc) # rest"
    by (cases c) auto
  from Cons have ih: "place m t cs =
     Inr (case first_fit t m cs of
            Some i \<Rightarrow> (cs[i := cs ! i @ [(m, similarity (title m) (centroid_title (cs ! i)))]], True)
          | None \<Rightarrow> (cs, False))"
    by simp
  show ?case
    by (simp add: c ih first_fit_Cons centroid_title_def Let_def split: option.splits)
qed

lemma first_fit_step_nonempty:
  assumes "\<forall>c\<in>set cs. c \<noteq> []"
  shows "\<forall>c\<in>set (first_fit_step t cs m). c \<noteq> []"
proof (cases "first_fit t m cs")
  case None
  with assms show ?thesis by (simp add: first_fit_step_def)
next
  case (Some i)
  have "set (cs[i := cs ! i @ [(m, similarity (title m) (centroid_title (cs ! i)))]])
        \<subseteq> insert (cs ! i @ [(m, similarity (title m) (centroid_title (cs ! i)))]) (set cs)"
    by (rule set_update_subset_insert)
  with assms Some show ?thesis by (auto simp: first_fit_step_def)
qed

lemma cluster_loop_first_fit:
  "\<forall>c\<in>set cs. c \<noteq> [] \<Longrightarrow>
   cluster_loop t ms cs = Inr (foldl (first_fit_step t) cs ms)"
proof (induction ms arbitrary: cs)
  case Nil
  then show ?case by simp
next
  case (Cons m ms)
  have step: "(case place m t cs of Inl e \<Rightarrow> Inl e
               | Inr (cs', placed) \<Rightarrow>
                   cluster_loop t ms (if \<not> placed then cs' @ [[(m, 1)]] else cs'))
              = cluster_loop t ms (first_fit_step t cs m)"
    using Cons.prems by (simp add: place_first_fit first_fit_step_def split: option.splits)
  have "cluster_loop t ms (first_fit_step t cs m)
        = Inr (foldl (first_fit_step t) (first_fit_step t cs m) ms)"
    using Cons.prems by (intro Cons.IH first_fit_step_nonempty)
  with step show ?case by simp
qed

lemma foldl_first_fit_nonempty:
  "\<forall>c\<in>set cs. c \<noteq> [] \<Longrightarrow> \<forall>c\<in>set (foldl (first_fit_step t) cs ms). c \<noteq> []"
proof (induction ms arbitrary: cs)
  case Nil
  then show ?case by simp
next
  case (Cons m ms)
  then show ?case using first_fit_step_nonempty [of cs t m] by simp
qed

lemma build_unified_of:
  "\<forall>c\<in>set cs. c \<noteq> [] \<Longrightarrow> build_unified cs = Inr (map unified_of cs)"
proof (induction cs)
  case Nil
  then show ?case by simp
next
  case (Cons c cs)
  then obtain cm sc rest where c: "c = (cm, sc) # rest"
    by (cases c) auto
  have "(\<lambda>(cm, _). cm) = (fst :: SiteMarket \<times> real \<Rightarrow> SiteMarket)"
    by auto
  with Cons c show ?case
    by (simp add: max_by_len_def unified_of_def)
qed

text \<open>
  Neither \<open>IndexError\<close> nor \<open>ValueError\<close> is ever raised: the function returns the
  products of the clusters of the first-fit pass.
\<close>

lemma cluster_markets_unified_of:
  "cluster_markets markets t = Inr (map unified_of (first_fit_clusters t markets))"
proof -
  have "cluster_loop t markets [] = Inr (first_fit_clusters t markets)"
    by (simp add: cluster_loop_first_fit first_fit_clusters_def)
  moreover have "\<forall>c\<in>set (first_fit_clusters t markets). c \<noteq> []"
    unfolding first_fit_clusters_def by (rule foldl_first_fit_nonempty) simp
  ultimately show ?thesis
    by (simp add: cluster_markets_def build_unified_of)
qed

text \<open>
  C1. On every list of records and every threshold \<open>cluster_markets\<close> returns, and the
  clusters read off its products (members paired with their scores) are those of the
  first-fit pass of section 4.3: records in arrival order, clusters in creation order,
  each record appended with its score to the first cluster whose centroid (the title of
  its first member) scores at least the threshold, or else put into a new cluster with
  score 1. The empty list gives the empty list.
\<close>

theorem cluster_markets_is_first_fit:
  "(\<exists>unified. cluster_markets markets threshold = Inr unified \<and>
      map (\<lambda>u. zip (members u) (confidence_scores u)) unified
        = map (map (\<lambda>(m, sc). (m, Finite sc))) (first_fit_clusters threshold markets)) \<and>
   cluster_markets [] threshold = Inr []"
proof -
  have pairs: "zip (map fst c) (map (\<lambda>(_, sc). Finite sc) c) = map (\<lambda>(m, sc). (m, Finite sc)) c"
    for c :: cluster
    by (induction c) auto
  have "map (\<lambda>u. zip (members u) (confidence_scores u)) (map unified_of cs)
        = map (map (\<lambda>(m, sc). (m, Finite sc))) cs" for cs
    by (induction cs) (simp_all add: unified_of_def pairs)
  then show ?thesis
    by (simp add: cluster_markets_unified_of) (simp add: first_fit_clusters_def)
qed

section \<open>The invariant of the clusters\<close>

lemma cluster_inv_new: "cluster_inv t [(m, 1)]"
  by (simp add: cluster_inv_def)

lemma cluster_inv_append:
  "cluster_inv t c \<Longrightarrow> t \<le> similarity (title m) (centroid_title c) \<Longrightarrow>
   cluster_inv t (c @ [(m, similarity (title m) (centroid_title c))])"
  by (cases c) (auto simp: cluster_inv_def centroid_title_def)

lemma first_fit_step_inv:
  assumes "\<forall>c\<in>set cs. cluster_inv t c"
  shows "\<forall>c\<in>set (first_fit_step t cs m). cluster_inv t c"
proof (cases "first_fit t m cs")
  case None
  with assms show ?thesis by (simp add: first_fit_step_def cluster_inv_new)
next
  case (Some i)
  let ?c = "cs ! i @ [(m, similarity (title m) (centroid_title (cs ! i)))]"
  from Some have i: "i < length cs" "t \<le> similarity (title m) (centroid_title (cs ! i))"
    by (simp_all add: first_fit_Some)
  with assms have "cluster_inv t ?c"
    by (intro cluster_inv_append) simp_all
  moreover have "set (cs[i := ?c]) \<subseteq> insert ?c (set cs)"
    by (rule set_update_subset_insert)
  ultimately show ?thesis using assms Some by (auto simp: first_fit_step_def)
qed

lemma foldl_first_fit_inv:
  "\<forall>c\<in>set cs. cluster_inv t c \<Longrightarrow> \<forall>c\<in>set (foldl (first_fit_step t) cs ms). cluster_inv t c"
proof (induction ms arbitrary: cs)
  case Nil
  then show ?case by simp
next
  case (Cons m ms)
  then show ?case using first_fit_step_inv [of cs t m] by simp
qed

lemma first_fit_clusters_inv: "\<forall>c\<in>set (first_fit_clusters t ms). cluster_inv t c"
  unfolding first_fit_clusters_def by (rule foldl_first_fit_inv) simp

lemma cluster_inv_later:
  assumes "cluster_inv t c" "0 < i" "i < length c"
  shows "snd (c ! i) = similarity (title (fst (c ! i))) (title (fst (c ! 0))) \<and> t \<le> snd (c ! i)"
proof -
  from assms obtain x r where c: "c = x # r" by (cases c) auto
  with assms have mem: "r ! (i - 1) \<in> set r" by simp
  from assms(1) c
  have all: "\<forall>p\<in>set r. snd p = similarity (title (fst p)) (title (fst x)) \<and> t \<le> snd p"
    unfolding cluster_inv_def centroid_title_def by auto
  from assms c have "c ! i = r ! (i - 1)" by (simp add: nth_Cons')
  with bspec [OF all mem] c show ?thesis by simp
qed

lemma unified_of_scores:
  assumes "cluster_inv t c"
  shows "length (confidence_scores (unified_of c)) = length (members (unified_of c))"
    and "members (unified_of c) \<noteq> []"
    and "confidence_scores (unified_of c) ! 0 = Finite 1"
    and "0 < i \<Longrightarrow> i < length (members (unified_of c)) \<Longrightarrow>
         confidence_scores (unified_of c) ! i
           = Finite (similarity (title (members (unified_of c) ! i))
               (title (members (unified_of c) ! 0)))
         \<and> t \<le> similarity (title (members (unified_of c) ! i))
               (title (members (unified_of c) ! 0))"
proof -
  from assms obtain x r where c: "c = x # r" by (cases c) (auto simp: cluster_inv_def)
  show "length (confidence_scores (unified_of c)) = length (members (unified_of c))"
    by (simp add: unified_of_def)
  show "members (unified_of c) \<noteq> []"
    using c by (simp add: unified_of_def)
  show "confidence_scores (unified_of c) ! 0 = Finite 1"
    using assms c by (simp add: unified_of_def cluster_inv_def case_prod_beta)
  show "confidence_scores (unified_of c) ! i
           = Finite (similarity (title (members (unified_of c) ! i))
               (title (members (unified_of c) ! 0)))
         \<and> t \<le> similarity (title (members (unified_of c) ! i))
               (title (members (unified_of c) ! 0))"
    if "0 < i" "i < length (members (unified_of c))"
    using cluster_inv_later [OF assms that(1), of ] that c
    by (simp add: unified_of_def case_prod_beta)
qed

text \<open>
  C3. In every product that \<open>cluster_markets\<close> returns the scores run parallel to the
  members, all of them lie between 0 and 1, the first one is 1, and the score of every
  later member is the similarity of its title to the title of the first member.
\<close>

theorem confidence_scores_of_clusters:
  "\<exists>unified. cluster_markets markets threshold = Inr unified \<and>
     (\<forall>u\<in>set unified.
        length (confidence_scores u) = length (members u) \<and> members u \<noteq> [] \<and>
        confidence_scores u ! 0 = Finite 1 \<and>
        (\<forall>s\<in>set (confidence_scores u). \<exists>x. s = Finite x \<and> 0 \<le> x \<and> x \<le> 1) \<and>
        (\<forall>i. 0 < i \<and> i < length (members u) \<longrightarrow>
           confidence_scores u ! i
             = Finite (similarity (title (members u ! i)) (title (members u ! 0)))))"
proof -
  have "length (confidence_scores u) = length (members u) \<and> members u \<noteq> [] \<and>
        confidence_scores u ! 0 = Finite 1 \<and>
        (\<forall>s\<in>set (confidence_scores u). \<exists>x. s = Finite x \<and> 0 \<le> x \<and> x \<le> 1) \<and>
        (\<forall>i. 0 < i \<and> i < length (members u) \<longrightarrow>
           confidence_scores u ! i
             = Finite (similarity (title (members u ! i)) (title (members u ! 0))))"
    if "u \<in> set (map unified_of (first_fit_clusters threshold markets))" for u
  proof -
    from that obtain c where c: "u = unified_of c" "cluster_inv threshold c"
      using first_fit_clusters_inv by auto
    note facts = unified_of_scores [OF c(2)]
    have "\<exists>x. s = Finite x \<and> 0 \<le> x \<and> x \<le> 1" if "s \<in> set (confidence_scores u)" for s
    proof -
      from that obtain i where i: "i < length (confidence_scores u)" "s = confidence_scores u ! i"
        by (auto simp: in_set_conv_nth)
      show ?thesis
      proof (cases "i = 0")
        case True
        with i facts(3) c(1) show ?thesis by simp
      next
        case False
        with i facts(1) facts(4) [of i] c(1) show ?thesis
          by (simp add: similarity_ge_0 similarity_le_1)
      qed
    qed
    with facts c(1) show ?thesis by simp
  qed
  then show ?thesis
    unfolding cluster_markets_unified_of by blast
qed

text \<open>
  C2. In every product that \<open>cluster_markets\<close> returns, every member after the first
  has a similarity to the centroid title (the title of the first member) of at least the
  threshold. The first member is stored without a comparison: its similarity to its own
  title is at least the threshold when the threshold is at most 1 and its normalized
  title has a token.
\<close>

theorem later_members_clear_threshold:
  "\<exists>unified. cluster_markets markets threshold = Inr unified \<and>
     (\<forall>u\<in>set unified. members u \<noteq> [] \<and>
        (\<forall>i. 0 < i \<and> i < length (members u) \<longrightarrow>
           threshold \<le> similarity (title (members u ! i)) (title (members u ! 0))) \<and>
        (threshold \<le> 1 \<and> split (normalize_title (title (members u ! 0))) \<noteq> [] \<longrightarrow>
           threshold \<le> similarity (title (members u ! 0)) (title (members u ! 0))))"
proof -
  have "members u \<noteq> [] \<and>
        (\<forall>i. 0 < i \<and> i < length (members u) \<longrightarrow>
           threshold \<le> similarity (title (members u ! i)) (title (members u ! 0))) \<and>
        (threshold \<le> 1 \<and> split (normalize_title (title (members u ! 0))) \<noteq> [] \<longrightarrow>
           threshold \<le> similarity (title (members u ! 0)) (title (members u ! 0)))"
    if "u \<in> set (map unified_of (first_fit_clusters threshold markets))" for u
  proof -
    from that obtain c where c: "u = unified_of c" "cluster_inv threshold c"
      using first_fit_clusters_inv by auto
    note facts = unified_of_scores [OF c(2)]
    have "threshold \<le> similarity (title (members u ! i)) (title (members u ! 0))"
      if "0 < i" "i < length (members u)" for i
      using facts(4) [of i] that c(1) by simp
    with facts(2) c(1) show ?thesis by (simp add: similarity_same)
  qed
  then show ?thesis
    unfolding cluster_markets_unified_of by blast
qed

section \<open>Degenerate thresholds\<close>

lemma first_fit_above_one: "1 < t \<Longrightarrow> first_fit t r cs = None"
  unfolding first_fit_None using similarity_le_1 by (auto intro: le_less_trans)

lemma foldl_first_fit_above_one:
  "1 < t \<Longrightarrow> foldl (first_fit_step t) cs ms = cs @ map (\<lambda>m. [(m, 1)]) ms"
  by (induction ms arbitrary: cs) (simp_all add: first_fit_step_def first_fit_above_one)

text \<open>
  C5. With a threshold above 1 no record joins a cluster: the result has one product per
  record, in arrival order, with that record as its only member, its title as the
  unified title and the single score 1.
\<close>

theorem singleton_fallback:
  "1 < threshold \<Longrightarrow>
   cluster_markets markets threshold =
     Inr (map (\<lambda>m. \<lparr>unified_title = title m, members = [m],
                  confidence_scores = [Finite 1]\<rparr>) markets)"
  by (simp add: cluster_markets_unified_of first_fit_clusters_def foldl_first_fit_above_one
      unified_of_def comp_def)

lemma first_fit_step_merge:
  "t \<le> 0 \<Longrightarrow> c \<noteq> [] \<Longrightarrow>
   first_fit_step t [c] m = [c @ [(m, similarity (title m) (centroid_title c))]]"
  using similarity_ge_0 [of "title m" "centroid_title c"]
  by (simp add: first_fit_step_def first_fit_Cons)

lemma foldl_first_fit_merge:
  "t \<le> 0 \<Longrightarrow> c \<noteq> [] \<Longrightarrow>
   foldl (first_fit_step t) [c] ms = [c @ map (\<lambda>m. (m, similarity (title m) (centroid_title c))) ms]"
proof (induction ms arbitrary: c)
  case Nil
  then show ?case by simp
next
  case (Cons m ms)
  let ?c = "c @ [(m, similarity (title m) (centroid_title c))]"
  have "centroid_title ?c = centroid_title c"
    using Cons.prems by (simp add: centroid_title_def)
  moreover have "foldl (first_fit_step t) [?c] ms
        = [?c @ map (\<lambda>m. (m, similarity (title m) (centroid_title ?c))) ms]"
    using Cons.prems by (intro Cons.IH) simp_all
  ultimately show ?case using Cons.prems by (simp add: first_fit_step_merge)
qed

text \<open>
  C6. With a threshold of at most 0 and at least one record the result is a single
  product whose members are all the records in arrival order.
\<close>

theorem total_merge:
  "threshold \<le> 0 \<Longrightarrow> markets \<noteq> [] \<Longrightarrow>
   \<exists>u. cluster_markets markets threshold = Inr [u] \<and> members u = markets"
proof -
  assume t: "threshold \<le> 0" and ne: "markets \<noteq> []"
  then obtain m ms where ms: "markets = m # ms" by (cases markets) auto
  have "first_fit_step threshold [] m = [[(m, 1)]]"
    by (simp add: first_fit_step_def first_fit_Nil)
  then have "first_fit_clusters threshold markets = foldl (first_fit_step threshold) [[(m, 1)]] ms"
    by (simp add: ms first_fit_clusters_def)
  also have "\<dots> = [[(m, 1)] @ map (\<lambda>r. (r, similarity (title r) (centroid_title [(m, 1)]))) ms]"
    using t by (intro foldl_first_fit_merge) simp_all
  finally have "first_fit_clusters threshold markets
        = [[(m, 1)] @ map (\<lambda>r. (r, similarity (title r) (centroid_title [(m, 1)]))) ms]" .
  then show ?thesis
    by (simp add: cluster_markets_unified_of unified_of_def ms comp_def)
qed

section \<open>The representative title\<close>

lemma max_from_first_longest:
  "\<exists>i<length (best # ts). max_from best ts = (best # ts) ! i \<and>
     (\<forall>j<i. length ((best # ts) ! j) < length (max_from best ts)) \<and>
     (\<forall>x\<in>set (best # ts). length x \<le> length (max_from best ts))"
proof (induction ts arbitrary: best)
  case Nil
  then show ?case by simp
next
  case (Cons t ts)
  show ?case
  proof (cases "length t > length best")
    case True
    from Cons [of t] obtain i where i: "i < length (t # ts)" "max_from t ts = (t # ts) ! i"
      "\<forall>j<i. length ((t # ts) ! j) < length (max_from t ts)"
      "\<forall>x\<in>set (t # ts). length x \<le> length (max_from t ts)"
      by blast
    from i(4) have tl: "length t \<le> length (max_from t ts)" by simp
    have "\<forall>j<Suc i. length ((best # t # ts) ! j) < length (max_from t ts)"
    proof (intro allI impI)
      fix j assume "j < Suc i"
      then show "length ((best # t # ts) ! j) < length (max_from t ts)"
        using i(3) True tl by (cases j) auto
    qed
    with i True tl show ?thesis
      by (intro exI [of _ "Suc i"]) auto
  next
    case False
    from Cons [of best] obtain i where i: "i < length (best # ts)" "max_from best ts = (best # ts) ! i"
      "\<forall>j<i. length ((best # ts) ! j) < length (max_from best ts)"
      "\<forall>x\<in>set (best # ts). length x \<le> length (max_from best ts)"
      by blast
    show ?thesis
    proof (cases i)
      case 0
      with i False show ?thesis
        by (intro exI [of _ 0]) auto
    next
      case (Suc k)
      with i(3) have b: "length best < length (max_from best ts)" by auto
      have "\<forall>j<Suc i. length ((best # t # ts) ! j) < length (max_from best ts)"
      proof (intro allI impI)
        fix j assume j: "j < Suc i"
        show "length ((best # t # ts) ! j) < length (max_from best ts)"
        proof (cases j)
          case 0
          with b show ?thesis by simp
        next
          case (Suc j')
          show ?thesis
          proof (cases j')
            case 0
            with Suc b False show ?thesis by simp
          next
            case (Suc j'')
            with \<open>j = Suc j'\<close> j i(3) show ?thesis by auto
          qed
        qed
      qed
      with i Suc False b show ?thesis
        by (intro exI [of _ "Suc i"]) auto
    qed
  qed
qed

lemma unified_title_of:
  assumes "c \<noteq> []"
  shows "\<exists>i<length (members (unified_of c)).
           unified_title (unified_of c) = title (members (unified_of c) ! i) \<and>
           (\<forall>j<i. length (title (members (unified_of c) ! j)) < length (unified_title (unified_of c))) \<and>
           (\<forall>m\<in>set (members (unified_of c)). length (title m) \<le> length (unified_title (unified_of c)))"
proof -
  from assms obtain x r where c: "c = x # r" by (cases c) auto
  let ?ts = "map (\<lambda>(cm, _). title cm) r"
  have ts: "title (fst x) # ?ts = map title (map fst c)"
    by (simp add: c case_prod_beta)
  from max_from_first_longest [of "title (fst x)" ?ts]
  obtain i where i: "i < length (map title (map fst c))"
    "max_from (title (fst x)) ?ts = map title (map fst c) ! i"
    "\<forall>j<i. length (map title (map fst c) ! j) < length (max_from (title (fst x)) ?ts)"
    "\<forall>t\<in>set (map title (map fst c)). length t \<le> length (max_from (title (fst x)) ?ts)"
    unfolding ts by blast
  have u: "unified_title (unified_of c) = max_from (title (fst x)) ?ts"
    "members (unified_of c) = map fst c"
    by (simp_all add: unified_of_def c)
  have "\<forall>j<i. length (title (map fst c ! j)) < length (max_from (title (fst x)) ?ts)"
    using i(1) i(3) by auto
  moreover have "title (map fst c ! i) = max_from (title (fst x)) ?ts"
    using i(1) i(2) by simp
  moreover have "\<forall>m\<in>set (map fst c). length (title m) \<le> length (max_from (title (fst x)) ?ts)"
    using i(4) by simp
  ultimately show ?thesis
    unfolding u using i(1) by (intro exI [of _ i]) simp
qed

text \<open>
  C7. The unified title of every product is the title of one of its members, no member
  has a longer title, and every member before that one has a strictly shorter title: it
  is the first title of the greatest length.
\<close>

theorem unified_title_first_longest:
  "\<exists>unified. cluster_markets markets threshold = Inr unified \<and>
     (\<forall>u\<in>set unified.
        \<exists>i<length (members u).
          unified_title u = title (members u ! i) \<and>
          (\<forall>j<i. length (title (members u ! j)) < length (unified_title u)) \<and>
          (\<forall>m\<in>set (members u). length (title m) \<le> length (unified_title u)))"
proof -
  have "\<forall>c\<in>set (first_fit_clusters threshold markets). c \<noteq> []"
    unfolding first_fit_clusters_def by (rule foldl_first_fit_nonempty) simp
  then show ?thesis
    unfolding cluster_markets_unified_of using unified_title_of by auto
qed


section \<open>The pass on concrete records\<close>

lemma example_arrival_order:
  "cluster_markets [sample ''a b'', sample ''a c'', sample ''a''] (78 / 100) =
     Inr [\<lparr>unified_title = ''a b'', members = [sample ''a b'', sample ''a''],
            confidence_scores = [Finite 1, Finite 1]\<rparr>,
          \<lparr>unified_title = ''a c'', members = [sample ''a c''],
            confidence_scores = [Finite 1]\<rparr>]"
  by code_simp

lemma example_reordered:
  "cluster_markets [sample ''a'', sample ''a b'', sample ''a c''] (78 / 100) =
     Inr [\<lparr>unified_title = ''a b'', members = [sample ''a'', sample ''a b'', sample ''a c''],
            confidence_scores = [Finite 1, Finite 1, Finite 1]\<rparr>]"
  by code_simp

lemma example_merged:
  "cluster_markets [sample ''a'', sample ''bc'', sample ''de''] 0 =
     Inr [\<lparr>unified_title = ''bc'', members = [sample ''a'', sample ''bc'', sample ''de''],
            confidence_scores = [Finite 1, Finite 0, Finite 0]\<rparr>]"
  by code_simp

theorem confidence_scores_of_clusters_witness:
  "cluster_markets [sample ''a b'', sample ''a c'', sample ''a''] (78 / 100) =
     Inr [\<lparr>unified_title = ''a b'', members = [sample ''a b'', sample ''a''],
            confidence_scores = [Finite 1, Finite 1]\<rparr>,
          \<lparr>unified_title = ''a c'', members = [sample ''a c''],
            confidence_scores = [Finite 1]\<rparr>] \<and>
   (1::real) = similarity (title (sample ''a'')) (title (sample ''a b''))"
  using confidence_scores_of_clusters
          [of "[sample ''a b'', sample ''a c'', sample ''a'']" "78 / 100"]
  unfolding example_arrival_order
  by (auto dest: spec [of _ 1])

theorem later_members_clear_threshold_witness:
  "cluster_markets [sample ''a b'', sample ''a c'', sample ''a''] (78 / 100) =
     Inr [\<lparr>unified_title = ''a b'', members = [sample ''a b'', sample ''a''],
            confidence_scores = [Finite 1, Finite 1]\<rparr>,
          \<lparr>unified_title = ''a c'', members = [sample ''a c''],
            confidence_scores = [Finite 1]\<rparr>] \<and>
   78 / 100 \<le> similarity (title (sample ''a'')) (title (sample ''a b'')) \<and>
   split (normalize_title (title (sample ''a c''))) \<noteq> [] \<and>
   78 / 100 \<le> similarity (title (sample ''a c'')) (title (sample ''a c''))"
proof -
  have tok: "split (normalize_title (title (sample ''a c''))) \<noteq> []"
    by code_simp
  show ?thesis
    using tok later_members_clear_threshold
          [of "[sample ''a b'', sample ''a c'', sample ''a'']" "78 / 100"]
    unfolding example_arrival_order
    by (auto dest: spec [of _ 1])
qed

text \<open>
  With the threshold 1.5 the only member of the cluster scores 1 against the centroid,
  its own title; with the default threshold the title \<open>?\<close> scores 0 against itself.
  Both are first members below the threshold.
\<close>

theorem first_member_below_threshold_counterexample:
  "cluster_markets [sample ''a''] (3 / 2) =
     Inr [\<lparr>unified_title = ''a'', members = [sample ''a''], confidence_scores = [Finite 1]\<rparr>] \<and>
   similarity (title (sample ''a'')) (title (sample ''a'')) < 3 / 2 \<and>
   cluster_markets [sample ''?''] (78 / 100) =
     Inr [\<lparr>unified_title = ''?'', members = [sample ''?''], confidence_scores = [Finite 1]\<rparr>] \<and>
   similarity (title (sample ''?'')) (title (sample ''?'')) < 78 / 100"
  by code_simp

theorem singleton_fallback_witness:
  "(1::real) < 3 / 2 \<and>
   cluster_markets [sample ''a'', sample ''a''] (3 / 2) =
     Inr [\<lparr>unified_title = ''a'', members = [sample ''a''], confidence_scores = [Finite 1]\<rparr>,
          \<lparr>unified_title = ''a'', members = [sample ''a''], confidence_scores = [Finite 1]\<rparr>]"
  using singleton_fallback [of "3 / 2" "[sample ''a'', sample ''a'']"]
  by (simp add: sample_def)

theorem total_merge_witness:
  "(0::real) \<le> 0 \<and> [sample ''a'', sample ''bc'', sample ''de''] \<noteq> [] \<and>
   (\<exists>u. cluster_markets [sample ''a'', sample ''bc'', sample ''de''] 0 = Inr [u] \<and>
        members u = [sample ''a'', sample ''bc'', sample ''de''])"
  using total_merge [of 0 "[sample ''a'', sample ''bc'', sample ''de'']"]
  by simp

theorem unified_title_first_longest_witness:
  "cluster_markets [sample ''a'', sample ''bc'', sample ''de''] 0 =
     Inr [\<lparr>unified_title = ''bc'', members = [sample ''a'', sample ''bc'', sample ''de''],
            confidence_scores = [Finite 1, Finite 0, Finite 0]\<rparr>] \<and>
   length (title (sample ''a'')) \<le> length ''bc'' \<and>
   length (title (sample ''de'')) \<le> length ''bc''"
  using unified_title_first_longest [of "[sample ''a'', sample ''bc'', sample ''de'']" 0]
  unfolding example_merged
  by auto

text \<open>
  C10. There are a list of records, a permutation of it and a threshold on which
  \<open>cluster_markets\<close> groups the records differently: with the threshold 0.78 the titles
  \<open>a b\<close>, \<open>a c\<close>, \<open>a\<close> give two groups in this order and a single group when \<open>a\<close>
  comes first. The grouping is the set of the member sets of the products, which does
  not depend on the order of the products or of their members.
\<close>

theorem order_sensitivity:
  "\<exists>R R' t us us'.
     mset R' = mset R \<and> cluster_markets R t = Inr us \<and> cluster_markets R' t = Inr us' \<and>
     (\<lambda>u. set (members u)) ` set us \<noteq> (\<lambda>u. set (members u)) ` set us' \<and>
     length us \<noteq> length us'"
proof (intro exI conjI)
  show "mset [sample ''a'', sample ''a b'', sample ''a c'']
        = mset [sample ''a b'', sample ''a c'', sample ''a'']"
    by simp
  show "cluster_markets [sample ''a b'', sample ''a c'', sample ''a''] (78 / 100) =
     Inr [\<lparr>unified_title = ''a b'', members = [sample ''a b'', sample ''a''],
            confidence_scores = [Finite 1, Finite 1]\<rparr>,
          \<lparr>unified_title = ''a c'', members = [sample ''a c''],
            confidence_scores = [Finite 1]\<rparr>]"
    by (rule example_arrival_order)
  show "cluster_markets [sample ''a'', sample ''a b'', sample ''a c''] (78 / 100) =
     Inr [\<lparr>unified_title = ''a b'', members = [sample ''a'', sample ''a b'', sample ''a c''],
            confidence_scores = [Finite 1, Finite 1, Finite 1]\<rparr>]"
    by (rule example_reordered)
  show "(\<lambda>u. set (members u)) `
          set [\<lparr>unified_title = ''a b'', members = [sample ''a b'', sample ''a''],
                 confidence_scores = [Finite 1, Finite 1]\<rparr>,
               \<lparr>unified_title = ''a c'', members = [sample ''a c''],
                 confidence_scores = [Finite 1]\<rparr>]
        \<noteq> (\<lambda>u. set (members u)) `
          set [\<lparr>unified_title = ''a b'',
                 members = [sample ''a'', sample ''a b'', sample ''a c''],
                 confidence_scores = [Finite 1, Finite 1, Finite 1]\<rparr>]"
    by (auto simp: sample_def)
  show "length [\<lparr>unified_title = ''a b'', members = [sample ''a b'', sample ''a''],
                  confidence_scores = [Finite 1, Finite 1]\<rparr>,
                \<lparr>unified_title = ''a c'', members = [sample ''a c''],
                  confidence_scores = [Finite 1]\<rparr>]
        \<noteq> length [\<lparr>unified_title = ''a b'',
                  members = [sample ''a'', sample ''a b'', sample ''a c''],
                  confidence_scores = [Finite 1, Finite 1, Finite 1]\<rparr>]"
    by simp
qed

section \<open>The rows of the export\<close>















end
